theory Spec2Isabelle
  imports Complex_Main "HOL-Library.Char_ord" "HOL-Library.List_Lexorder"
    "HOL-Library.Product_Lexorder" "HOL-Library.Multiset"
begin

chapter \<open>The model\<close>

section \<open>Conventions\<close>

text \<open>
  Python floats are read as \<^typ>\<open>real\<close> (rounding, \<open>inf\<close> and \<open>nan\<close> are outside the
  model), Python strings as \<^typ>\<open>string\<close> compared lexicographically by character code
  (the order Python and pandas use on \<open>str\<close>), \<open>len\<close> as \<^typ>\<open>nat\<close>, a pandas table
  as the list of its rows.  Third-party routines (sacrebleu, scipy, the HuggingFace
  text-generation pipeline) are parameters of the functions that call them.  An exception
  is a value \<open>Inl e\<close> of the result.
\<close>

datatype error =
    KeyError string
  | ValueError string
  | StatsError string
  | UnknownSeverity string

section \<open>Metric wrappers: \<open>metrics/bleu.py\<close> and \<open>metrics/chrf.py\<close>\<close>

text \<open>
  \<^verbatim>\<open>
  scores = []
  for hyp, ref in zip(hypotheses, references):
      result = sacrebleu.sentence_bleu(hyp, [ref])
      scores.append(result.score / 100.0)
  return scores
  \<close>
  \<open>sentence_bleu hyp refs\<close> stands for the \<open>.score\<close> of sacrebleu's result.
\<close>

fun bleu_loop :: "(string \<Rightarrow> string list \<Rightarrow> real) \<Rightarrow> (string \<times> string) list \<Rightarrow> real list \<Rightarrow> real list" where
  "bleu_loop sentence_bleu [] scores = scores"
| "bleu_loop sentence_bleu ((hyp, ref) # rest) scores =
     bleu_loop sentence_bleu rest (scores @ [sentence_bleu hyp [ref] / 100])"

definition bleu_score ::
  "(string \<Rightarrow> string list \<Rightarrow> real) \<Rightarrow> string list \<Rightarrow> string list \<Rightarrow> string list \<Rightarrow> string option \<Rightarrow> real list" where
  "bleu_score sentence_bleu sources hypotheses references lang =
     bleu_loop sentence_bleu (zip hypotheses references) []"

text \<open>
  \<^verbatim>\<open>
  chrf = sacrebleu.CHRF(word_order=2)
  scores = []
  for hyp, ref in zip(hypotheses, references):
      result = chrf.sentence_score(hyp, [ref])
      scores.append(result.score / 100.0)
  return scores
  \<close>
  \<open>chrf_sentence_score word_order hyp refs\<close> stands for the \<open>.score\<close> of
  \<open>CHRF(word_order).sentence_score(hyp, refs)\<close>.
\<close>

fun chrf_loop :: "(string \<Rightarrow> string list \<Rightarrow> real) \<Rightarrow> (string \<times> string) list \<Rightarrow> real list \<Rightarrow> real list" where
  "chrf_loop sentence_score [] scores = scores"
| "chrf_loop sentence_score ((hyp, ref) # rest) scores =
     chrf_loop sentence_score rest (scores @ [sentence_score hyp [ref] / 100])"

definition chrf_score ::
  "(nat \<Rightarrow> string \<Rightarrow> string list \<Rightarrow> real) \<Rightarrow> string list \<Rightarrow> string list \<Rightarrow> string list \<Rightarrow> string option \<Rightarrow> real list" where
  "chrf_score chrf_sentence_score sources hypotheses references lang =
     chrf_loop (chrf_sentence_score 2) (zip hypotheses references) []"

section \<open>GEMBA-MQM: \<open>metrics/gemba.py\<close> and the GEMBA branch of \<open>pipeline._run_metrics\<close>\<close>

text \<open>
  \<^verbatim>\<open>
  SEVERITY_PENALTIES = {"major": 5.0, "minor": 1.0}

  def _parse_gemba_output(text):
      if "NO ERRORS" in text.upper():
          return 0.0
      penalty = 0.0
      for match in re.finditer(r"severity:\s*(major|minor)", text, re.IGNORECASE):
          sev = match.group(1).lower()
          penalty += SEVERITY_PENALTIES.get(sev, 0.0)
      return penalty
  \<close>
  The text is read as ASCII: \<open>upper_char\<close> and \<open>lower_char\<close> change the case of the
  letters \<open>a\<close> to \<open>z\<close> only, \<open>is_space\<close> is the ASCII part of the class \<open>\s\<close>.
  \<open>finditer_severity\<close> scans for the non-overlapping matches from left to right and
  returns the lower-cased group 1 of each.
\<close>

definition SEVERITY_PENALTIES :: "(string \<times> real) list" where
  "SEVERITY_PENALTIES = [(''major'', 5), (''minor'', 1)]"

definition upper_char :: "char \<Rightarrow> char" where
  "upper_char c = (if CHR ''a'' \<le> c \<and> c \<le> CHR ''z'' then char_of (of_char c - (32::nat)) else c)"

definition lower_char :: "char \<Rightarrow> char" where
  "lower_char c = (if CHR ''A'' \<le> c \<and> c \<le> CHR ''Z'' then char_of (of_char c + (32::nat)) else c)"

definition is_space :: "char \<Rightarrow> bool" where
  "is_space c = (c = CHR '' '' \<or> (9::nat) \<le> of_char c \<and> of_char c \<le> (13::nat)
                 \<or> (28::nat) \<le> of_char c \<and> of_char c \<le> (31::nat))"

fun contains :: "string \<Rightarrow> string \<Rightarrow> bool" where
  "contains needle [] = (needle = [])"
| "contains needle (c # cs) = (take (length needle) (c # cs) = needle \<or> contains needle cs)"

definition match_ci :: "string \<Rightarrow> string \<Rightarrow> bool" where
  "match_ci pat text = (map lower_char (take (length pat) text) = pat)"

function finditer_severity :: "string \<Rightarrow> string list" where
  "finditer_severity [] = []"
| "finditer_severity (c # cs) =
     (if match_ci ''severity:'' (c # cs) then
        (let rest = dropWhile is_space (drop 9 (c # cs)) in
         if match_ci ''major'' rest then ''major'' # finditer_severity (drop 5 rest)
         else if match_ci ''minor'' rest then ''minor'' # finditer_severity (drop 5 rest)
         else finditer_severity cs)
      else finditer_severity cs)"
  by pat_completeness auto
termination
proof (relation "measure length")
  fix c cs rest
  assume "rest = dropWhile is_space (drop 9 (c # cs))"
  then have "length rest \<le> length cs"
    using length_dropWhile_le [of is_space "drop 9 (c # cs)"] by simp
  then show "(drop 5 rest, c # cs) \<in> measure length" "(drop 5 rest, c # cs) \<in> measure length"
    by simp_all
qed simp_all

fun add_penalties :: "string list \<Rightarrow> real \<Rightarrow> real" where
  "add_penalties [] penalty = penalty"
| "add_penalties (sev # rest) penalty =
     add_penalties rest (penalty + (case map_of SEVERITY_PENALTIES sev of Some w \<Rightarrow> w | None \<Rightarrow> 0))"

definition parse_gemba_output :: "string \<Rightarrow> real" where
  "parse_gemba_output text =
     (if contains ''NO ERRORS'' (map upper_char text) then 0
      else add_penalties (finditer_severity text) 0)"

text \<open>
  \<^verbatim>\<open>
  def score(sources, hypotheses, references, lang=None, model_name="",
            source_lang="English", target_lang="the target language", batch_size=4):
      if not model_name:
          raise ValueError(...)
      if lang:
          target_lang = lang
      pipe = hf_pipeline("text-generation", model=model_name, ...)
      prompts = [GEMBA_PROMPT_TEMPLATE.format(...) for src, hyp in zip(sources, hypotheses)]
      penalties = []
      for i in range(0, len(prompts), batch_size):
          batch = prompts[i : i + batch_size]
          outputs = pipe(batch)
          for out in outputs:
              generated = out[0]["generated_text"]
              penalties.append(_parse_gemba_output(generated))
      return penalties
  \<close>
  \<open>pipe batch\<close> stands for the list of the \<open>generated_text\<close> of the first candidate of
  each output of the language model on a batch of prompts.
\<close>

definition GEMBA_PROMPT_TEMPLATE :: "string \<Rightarrow> string \<Rightarrow> string \<Rightarrow> string \<Rightarrow> string" where
  "GEMBA_PROMPT_TEMPLATE source_lang target_lang source hypothesis =
     ''You are evaluating a machine translation from '' @ source_lang @ '' to '' @ target_lang
     @ ''.'' @ [CHR 0x0A, CHR 0x0A]
     @ ''Source: '' @ source @ [CHR 0x0A]
     @ ''Translation: '' @ hypothesis @ [CHR 0x0A, CHR 0x0A]
     @ ''List any translation errors in the format:'' @ [CHR 0x0A]
     @ ''ERROR: [severity: major|minor] [category: mistranslation|omission|grammar|register|other] [text: ...]''
     @ [CHR 0x0A, CHR 0x0A]
     @ ''If there are no errors, write: NO ERRORS''"

function batches :: "nat \<Rightarrow> 'a list \<Rightarrow> 'a list list" where
  "batches k xs = (if k = 0 \<or> xs = [] then [] else take k xs # batches k (drop k xs))"
  by pat_completeness auto
termination
  by (relation "measure (\<lambda>(k, xs). length xs)") auto

declare batches.simps [simp del]

fun penalties_loop :: "(string list \<Rightarrow> string list) \<Rightarrow> string list list \<Rightarrow> real list \<Rightarrow> real list" where
  "penalties_loop pipe [] penalties = penalties"
| "penalties_loop pipe (batch # rest) penalties =
     penalties_loop pipe rest (penalties @ map parse_gemba_output (pipe batch))"

definition gemba_score ::
  "(string list \<Rightarrow> string list) \<Rightarrow> string list \<Rightarrow> string list \<Rightarrow> string list \<Rightarrow> string option
     \<Rightarrow> string \<Rightarrow> string \<Rightarrow> string \<Rightarrow> int \<Rightarrow> error + real list" where
  "gemba_score pipe sources hypotheses references lang model_name source_lang target_lang batch_size =
     (if model_name = [] then
        Inl (ValueError ''gemba.score() requires model_name. Set metrics.gemba_model in settings.toml.'')
      else
        (let target_lang' = (case lang of Some l \<Rightarrow> if l \<noteq> [] then l else target_lang
                                        | None \<Rightarrow> target_lang);
             prompts = map (\<lambda>(src, hyp). GEMBA_PROMPT_TEMPLATE source_lang target_lang' src hyp)
                         (zip sources hypotheses)
         in if batch_size = 0 then Inl (ValueError ''range() arg 3 must not be zero'')
            else if batch_size < 0 then Inr []
            else Inr (penalties_loop pipe (batches (nat batch_size) prompts) [])))"

text \<open>
  The GEMBA branch of \<open>_run_metrics\<close>; the three lists are columns of one table, and the
  assignment of a column of another length is pandas' \<open>ValueError\<close>.
  \<^verbatim>\<open>
  raw_penalties = gemba.score(sources, hyps, refs, model_name=model_name)
  # Convert to quality score (higher = better) for consistent correlation direction
  scores_df["gemba"] = [1.0 / (1.0 + p) for p in raw_penalties]
  \<close>
\<close>

definition gemba_quality :: "real \<Rightarrow> real" where
  "gemba_quality p = 1 / (1 + p)"

definition run_metrics_gemba ::
  "(string list \<Rightarrow> string list) \<Rightarrow> string \<Rightarrow> string list \<Rightarrow> string list \<Rightarrow> string list
     \<Rightarrow> error + real list" where
  "run_metrics_gemba pipe model_name sources hyps refs =
     (case gemba_score pipe sources hyps refs None model_name ''English'' ''the target language'' 4 of
        Inl e \<Rightarrow> Inl e
      | Inr raw_penalties \<Rightarrow>
          (let column = map gemba_quality raw_penalties
           in if length column \<noteq> length sources
              then Inl (ValueError ''Length of values does not match length of index'')
              else Inr column))"

section \<open>Correlation engine: \<open>analysis/correlation.py\<close>\<close>

text \<open>
  The score table is a list of column names and a list of rows; a row has its language
  (the \<open>lang\<close> column, a string) and a cell for every other column name.  A cell is a
  number, a string or a missing value.  \<open>scipy.stats.pearsonr\<close> and \<open>spearmanr\<close> are
  the parameters \<open>pearson\<close> and \<open>spearman\<close>; they return the pair \<open>(r, p)\<close> or fail.
  A correlation record is the dict \<open>correlate_metric_vs_human\<close> returns; the row of
  the result table extends it with \<open>resource_tier\<close>.
\<close>

datatype cell = Num real | Str string | NA

record score_row =
  row_lang :: string
  row_cell :: "string \<Rightarrow> cell"

record scores_df =
  columns :: "string list"
  rows :: "score_row list"

record correlation =
  cr_lang :: string
  cr_metric :: string
  cr_n :: nat
  pearson_r :: "real option"
  pearson_p :: "real option"
  spearman_r :: "real option"
  spearman_p :: "real option"

record correlation_row = correlation +
  resource_tier :: string

type_synonym stat = "cell list \<Rightarrow> cell list \<Rightarrow> error + real \<times> real"

definition RESOURCE_TIERS :: "(string \<times> string list) list" where
  "RESOURCE_TIERS =
     [(''high'', [''es'', ''pt'']),
      (''medium'', [''th'', ''hr'', ''tl'', ''hy'']),
      (''low'', [''ht'', ''lo'', ''mh'', ''nv'', ''gil'', ''to''])]"

text \<open>
  \<^verbatim>\<open>
  def correlate_metric_vs_human(human_scores, metric_scores, metric_name, lang):
      if len(human_scores) < 3:
          return {"lang": lang, "metric": metric_name, "n": len(human_scores),
                  "pearson_r": None, "pearson_p": None, "spearman_r": None, "spearman_p": None}
      pr, pp = _pearson(human_scores, metric_scores)
      sr, sp = _spearman(human_scores, metric_scores)
      return {"lang": lang, "metric": metric_name, "n": len(human_scores),
              "pearson_r": pr, "pearson_p": pp, "spearman_r": sr, "spearman_p": sp}
  \<close>
\<close>

definition correlate_metric_vs_human ::
  "stat \<Rightarrow> stat \<Rightarrow> cell list \<Rightarrow> cell list \<Rightarrow> string \<Rightarrow> string \<Rightarrow> error + correlation" where
  "correlate_metric_vs_human pearson spearman human_scores metric_scores metric_name lang =
     (if length human_scores < 3 then
        Inr \<lparr>cr_lang = lang, cr_metric = metric_name, cr_n = length human_scores,
             pearson_r = None, pearson_p = None, spearman_r = None, spearman_p = None\<rparr>
      else
        (case pearson human_scores metric_scores of
           Inl e \<Rightarrow> Inl e
         | Inr (pr, pp) \<Rightarrow>
            (case spearman human_scores metric_scores of
               Inl e \<Rightarrow> Inl e
             | Inr (sr, sp) \<Rightarrow>
                 Inr \<lparr>cr_lang = lang, cr_metric = metric_name, cr_n = length human_scores,
                      pearson_r = Some pr, pearson_p = Some pp,
                      spearman_r = Some sr, spearman_p = Some sp\<rparr>)))"

text \<open>
  \<^verbatim>\<open>
  lang_to_tier = {lang: tier for tier, langs in resource_tiers.items() for lang in langs}
  rows = []
  for lang, group in scores_df.groupby("lang"):
      human = group[human_column].tolist()
      for metric in metric_columns:
          if metric not in group.columns:
              continue
          metric_vals = group[metric].tolist()
          result = correlate_metric_vs_human(human, metric_vals, metric, str(lang))
          result["resource_tier"] = lang_to_tier.get(str(lang), "unknown")
          rows.append(result)
  result_df = pd.DataFrame(rows, columns=[...])
  return result_df.sort_values(["metric", "resource_tier", "lang"])
  \<close>
  \<open>groupby\<close> yields the groups in the order of their sorted keys, each with its rows in
  table order (it drops rows whose key is missing; here every row has a language).  \<open>correlation_rows\<close> is the list \<open>rows\<close> the loops build;
  \<open>run_correlation_analysis\<close> sorts it by the three keys.
\<close>

definition lang_to_tier :: "(string \<times> string list) list \<Rightarrow> string \<rightharpoonup> string" where
  "lang_to_tier resource_tiers =
     fold (\<lambda>(tier, langs) m. fold (\<lambda>lang m'. m'(lang \<mapsto> tier)) langs m) resource_tiers Map.empty"

definition tier_of :: "(string \<rightharpoonup> string) \<Rightarrow> string \<Rightarrow> string" where
  "tier_of m lang = (case m lang of Some tier \<Rightarrow> tier | None \<Rightarrow> ''unknown'')"

definition groupby_lang :: "score_row list \<Rightarrow> (string \<times> score_row list) list" where
  "groupby_lang rs =
     map (\<lambda>l. (l, filter (\<lambda>r. row_lang r = l) rs)) (sort (remdups (map row_lang rs)))"

definition column_values :: "string \<Rightarrow> score_row list \<Rightarrow> cell list" where
  "column_values c rs = map (\<lambda>r. if c = ''lang'' then Str (row_lang r) else row_cell r c) rs"

fun metrics_loop ::
  "stat \<Rightarrow> stat \<Rightarrow> (string \<rightharpoonup> string) \<Rightarrow> string list \<Rightarrow> string \<Rightarrow> score_row list \<Rightarrow> cell list
     \<Rightarrow> string list \<Rightarrow> correlation_row list \<Rightarrow> error + correlation_row list" where
  "metrics_loop pearson spearman l2t cols lang grp human [] acc = Inr acc"
| "metrics_loop pearson spearman l2t cols lang grp human (metric # rest) acc =
     (if metric \<notin> set cols then
        metrics_loop pearson spearman l2t cols lang grp human rest acc
      else
        (case correlate_metric_vs_human pearson spearman human (column_values metric grp) metric lang of
           Inl e \<Rightarrow> Inl e
         | Inr result \<Rightarrow>
             metrics_loop pearson spearman l2t cols lang grp human rest
               (acc @ [correlation.extend result
                         (correlation_row.fields (tier_of l2t lang))])))"

fun groups_loop ::
  "stat \<Rightarrow> stat \<Rightarrow> (string \<rightharpoonup> string) \<Rightarrow> string list \<Rightarrow> string \<Rightarrow> string list
     \<Rightarrow> (string \<times> score_row list) list \<Rightarrow> correlation_row list \<Rightarrow> error + correlation_row list" where
  "groups_loop pearson spearman l2t cols human_column metric_columns [] acc = Inr acc"
| "groups_loop pearson spearman l2t cols human_column metric_columns ((lang, grp) # rest) acc =
     (if human_column \<notin> set cols then Inl (KeyError human_column)
      else
        (case metrics_loop pearson spearman l2t cols lang grp
                (column_values human_column grp) metric_columns acc of
           Inl e \<Rightarrow> Inl e
         | Inr acc' \<Rightarrow> groups_loop pearson spearman l2t cols human_column metric_columns rest acc'))"

definition sort_key3 :: "correlation_row \<Rightarrow> string \<times> string \<times> string" where
  "sort_key3 r = (cr_metric r, resource_tier r, cr_lang r)"

definition correlation_rows ::
  "stat \<Rightarrow> stat \<Rightarrow> scores_df \<Rightarrow> string list \<Rightarrow> string \<Rightarrow> (string \<times> string list) list option
     \<Rightarrow> error + correlation_row list" where
  "correlation_rows pearson spearman df metric_columns human_column resource_tiers =
     (let tiers = (case resource_tiers of None \<Rightarrow> RESOURCE_TIERS | Some t \<Rightarrow> t);
          l2t = lang_to_tier tiers
      in if ''lang'' \<notin> set (columns df) then Inl (KeyError ''lang'')
         else groups_loop pearson spearman l2t (columns df) human_column metric_columns
                (groupby_lang (rows df)) [])"

definition run_correlation_analysis ::
  "stat \<Rightarrow> stat \<Rightarrow> scores_df \<Rightarrow> string list \<Rightarrow> string \<Rightarrow> (string \<times> string list) list option
     \<Rightarrow> error + correlation_row list" where
  "run_correlation_analysis pearson spearman df metric_columns human_column resource_tiers =
     (case correlation_rows pearson spearman df metric_columns human_column resource_tiers of
        Inl e \<Rightarrow> Inl e
      | Inr result_rows \<Rightarrow> Inr (sort_key sort_key3 result_rows))"

section \<open>Tier summarizer: \<open>summarize_by_tier\<close>\<close>

text \<open>
  \<^verbatim>\<open>
  return (correlation_df
          .groupby(["metric", "resource_tier"])[["pearson_r", "spearman_r"]]
          .mean()
          .reset_index()
          .sort_values(["metric", "resource_tier"]))
  \<close>
  pandas' \<open>mean\<close> skips missing values: it adds up the values that are present, counts
  them, and divides; a group with none gives a missing value.
\<close>

record tier_summary =
  ts_metric :: string
  ts_resource_tier :: string
  ts_pearson_r :: "real option"
  ts_spearman_r :: "real option"

fun nanmean_loop :: "real option list \<Rightarrow> real \<Rightarrow> nat \<Rightarrow> real option" where
  "nanmean_loop [] acc_sum acc_n = (if acc_n = 0 then None else Some (acc_sum / real acc_n))"
| "nanmean_loop (None # vs) acc_sum acc_n = nanmean_loop vs acc_sum acc_n"
| "nanmean_loop (Some v # vs) acc_sum acc_n = nanmean_loop vs (acc_sum + v) (Suc acc_n)"

definition mean_skipna :: "real option list \<Rightarrow> real option" where
  "mean_skipna vs = nanmean_loop vs 0 0"

definition tier_key :: "correlation_row \<Rightarrow> string \<times> string" where
  "tier_key r = (cr_metric r, resource_tier r)"

definition groupby_metric_tier :: "correlation_row list \<Rightarrow> ((string \<times> string) \<times> correlation_row list) list" where
  "groupby_metric_tier rs =
     map (\<lambda>k. (k, filter (\<lambda>r. tier_key r = k) rs)) (sort (remdups (map tier_key rs)))"

definition group_means :: "(string \<times> string) \<times> correlation_row list \<Rightarrow> tier_summary" where
  "group_means kg =
     \<lparr>ts_metric = fst (fst kg), ts_resource_tier = snd (fst kg),
      ts_pearson_r = mean_skipna (map pearson_r (snd kg)),
      ts_spearman_r = mean_skipna (map spearman_r (snd kg))\<rparr>"

definition summarize_by_tier :: "correlation_row list \<Rightarrow> tier_summary list" where
  "summarize_by_tier correlation_df =
     sort_key (\<lambda>t. (ts_metric t, ts_resource_tier t))
       (map group_means (groupby_metric_tier correlation_df))"

section \<open>Annotation-to-score converter\<close>

text \<open>
  Modelled from the spec: the module \<open>mqmbench/data/converter.py\<close>, with
  \<open>annotations_to_sentence_scores\<close> and \<open>SEVERITY_WEIGHTS\<close>, is not among the sources;
  only its tests and its caller are.  The definitions follow section 4.2 of the
  specification step by step: rows are partitioned by \<open>(segment_id, lang)\<close>; in each
  group the sentinel \<open>no_error\<close> rows are set apart from the real error rows; the
  severity of each real error row is looked up in the weighting table, and an absent label
  is an error; the penalty is the sum of the weights; the counts are taken over the real
  error rows.  The weighting table and the two transforms the specification leaves open
  (penalty and hypothesis to \<open>normalized_score\<close> and to \<open>quality_score\<close>) are
  parameters.  The specification fixes no order of the output rows; the groups are taken
  in the order of their sorted keys.

  The specification does not settle whether the severity of a sentinel row is looked up
  as well: step 3 of section 4.2 names the real error rows, sections 7 and 8 speak of an
  unrecognized severity in any annotation row.  The flag \<open>lookup_sentinel\<close> covers both
  readings: when it is set, the severity of the sentinel rows of a group is checked
  against the table too (it adds nothing to the penalty).
\<close>

record annotation_row =
  segment_id :: int
  source :: string
  hypothesis :: string
  reference :: string
  ann_lang :: string
  error_type :: string
  severity :: string
  error_start :: "int option"
  error_end :: "int option"










section \<open>Specification-level notions\<close>

text \<open>
  \<open>order_insensitive\<close>: a statistic that depends only on the pairs of observations,
  not on their order.
  \<open>emitted\<close>: the row the engine appends for one language group and one metric.
  \<open>tiers_used\<close>: the language-to-tier map of a call.  \<open>small_row\<close>: the row of a group
  below three observations.  \<open>defined_values\<close> and \<open>arithmetic_mean\<close>: the mean of the
  values that are present, as the specification words it.
\<close>

definition order_insensitive :: "stat \<Rightarrow> bool" where
  "order_insensitive st \<longleftrightarrow>
     (\<forall>xs ys xs' ys'. length xs = length ys \<and> length xs' = length ys'
         \<and> mset (zip xs ys) = mset (zip xs' ys') \<longrightarrow> st xs ys = st xs' ys')"

definition emitted ::
  "stat \<Rightarrow> stat \<Rightarrow> (string \<rightharpoonup> string) \<Rightarrow> string \<Rightarrow> string \<Rightarrow> score_row list \<Rightarrow> string
     \<Rightarrow> correlation_row \<Rightarrow> bool" where
  "emitted pearson spearman l2t human_column lang grp metric r \<longleftrightarrow>
     (\<exists>c. correlate_metric_vs_human pearson spearman (column_values human_column grp)
              (column_values metric grp) metric lang = Inr c
        \<and> r = correlation.extend c (correlation_row.fields (tier_of l2t lang)))"

definition tiers_used :: "(string \<times> string list) list option \<Rightarrow> string \<rightharpoonup> string" where
  "tiers_used resource_tiers =
     lang_to_tier (case resource_tiers of None \<Rightarrow> RESOURCE_TIERS | Some t \<Rightarrow> t)"

definition small_row :: "(string \<rightharpoonup> string) \<Rightarrow> string \<Rightarrow> string \<Rightarrow> nat \<Rightarrow> correlation_row" where
  "small_row l2t l m k =
     \<lparr>cr_lang = l, cr_metric = m, cr_n = k, pearson_r = None, pearson_p = None,
      spearman_r = None, spearman_p = None, resource_tier = tier_of l2t l\<rparr>"

definition defined_values :: "real option list \<Rightarrow> real list" where
  "defined_values vs = concat (map (\<lambda>v. case v of None \<Rightarrow> [] | Some x \<Rightarrow> [x]) vs)"

definition arithmetic_mean :: "real list \<Rightarrow> real option" where
  "arithmetic_mean xs = (if xs = [] then None else Some (sum_list xs / real (length xs)))"

section \<open>Example inputs\<close>

text \<open>
  Stand-ins for the third-party routines, and for the weighting table and the transforms
  of the converter, which the sources do not contain.
\<close>


definition demo_pipe :: "string list \<Rightarrow> string list" where
  "demo_pipe batch = map (\<lambda>prompt. if contains ''Adios'' prompt
      then ''ERROR: [severity: major] [category: mistranslation] [text: Adios]''
      else ''NO ERRORS'') batch"

definition mk_row :: "string \<Rightarrow> real \<Rightarrow> real \<Rightarrow> score_row" where
  "mk_row l q b = \<lparr>row_lang = l, row_cell = (\<lambda>c. if c = ''quality_score'' then Num q
                                              else if c = ''bleu'' then Num b else NA)\<rparr>"

definition demo_df :: scores_df where
  "demo_df = \<lparr>columns = [''lang'', ''quality_score'', ''bleu''],
     rows = [mk_row ''pt'' 1 0.5, mk_row ''es'' 1 0.9, mk_row ''xx'' 0.5 0.4, mk_row ''es'' 0.2 0.1,
             mk_row ''pt'' 0.3 0.3, mk_row ''pt'' 0.6 0.7]\<rparr>"

definition demo_stat :: stat where
  "demo_stat xs ys = Inr (1 / 2, 1 / 4)"


definition tiny_df :: scores_df where
  "tiny_df = \<lparr>columns = [''lang'', ''quality_score'', ''bleu''],
     rows = [mk_row ''es'' 1 0.9, mk_row ''es'' 0.2 0.1]\<rparr>"

definition demo_corr :: "correlation_row list" where
  "demo_corr =
     [\<lparr>cr_lang = ''es'', cr_metric = ''bleu'', cr_n = 5, pearson_r = Some 0.8, pearson_p = Some 0.1,
       spearman_r = Some 0.6, spearman_p = Some 0.2, resource_tier = ''high''\<rparr>,
      \<lparr>cr_lang = ''pt'', cr_metric = ''bleu'', cr_n = 2, pearson_r = None, pearson_p = None,
       spearman_r = None, spearman_p = None, resource_tier = ''high''\<rparr>,
      \<lparr>cr_lang = ''xx'', cr_metric = ''bleu'', cr_n = 1, pearson_r = None, pearson_p = None,
       spearman_r = None, spearman_p = None, resource_tier = ''unknown''\<rparr>]"





chapter \<open>Properties\<close>

section \<open>The BLEU and ChrF++ wrappers\<close>

lemma bleu_loop_map:
  "bleu_loop sb ps acc = acc @ map (\<lambda>(hyp, ref). sb hyp [ref] / 100) ps"
  by (induction sb ps acc rule: bleu_loop.induct) simp_all

lemma chrf_loop_map:
  "chrf_loop sc ps acc = acc @ map (\<lambda>(hyp, ref). sc hyp [ref] / 100) ps"
  by (induction sc ps acc rule: chrf_loop.induct) simp_all

lemma bleu_score_map:
  "bleu_score sb srcs hyps refs lang = map (\<lambda>(hyp, ref). sb hyp [ref] / 100) (zip hyps refs)"
  by (simp add: bleu_score_def bleu_loop_map)

lemma chrf_score_map:
  "chrf_score sc srcs hyps refs lang = map (\<lambda>(hyp, ref). sc 2 hyp [ref] / 100) (zip hyps refs)"
  by (simp add: chrf_score_def chrf_loop_map)


text \<open>
  Claim C10.  With hypothesis and reference lists of unequal length, \<open>bleu.score\<close> and
  \<open>chrf.score\<close> have no failing branch: they return as many scores as the shorter list
  has entries, the i-th being the score of the i-th pair, and the entries of the longer
  list beyond that length are not scored.
\<close>

theorem metric_wrappers_truncate_to_shorter:
  "length (bleu_score sb srcs hyps refs lang) = min (length hyps) (length refs)
   \<and> length (chrf_score sc srcs hyps refs lang) = min (length hyps) (length refs)
   \<and> bleu_score sb srcs hyps refs lang
       = bleu_score sb srcs (take (length refs) hyps) (take (length hyps) refs) lang
   \<and> chrf_score sc srcs hyps refs lang
       = chrf_score sc srcs (take (length refs) hyps) (take (length hyps) refs) lang
   \<and> bleu_score sb srcs hyps refs lang
       = map (\<lambda>i. sb (hyps ! i) [refs ! i] / 100) [0 ..< min (length hyps) (length refs)]
   \<and> chrf_score sc srcs hyps refs lang
       = map (\<lambda>i. sc 2 (hyps ! i) [refs ! i] / 100) [0 ..< min (length hyps) (length refs)]"
proof -
  have z: "zip hyps refs = zip (take (length refs) hyps) (take (length hyps) refs)"
  proof (induction hyps arbitrary: refs)
    case Nil
    show ?case by simp
  next
    case (Cons h hs)
    then show ?case by (cases refs) simp_all
  qed
  have m: "\<And>f. map (\<lambda>(h, r). f h r) (zip hyps refs)
       = map (\<lambda>i. f (hyps ! i) (refs ! i)) [0 ..< min (length hyps) (length refs)]"
    by (rule nth_equalityI) simp_all
  show ?thesis
    using z m [of "\<lambda>h r. sb h [r] / 100"] m [of "\<lambda>h r. sc 2 h [r] / 100"]
    by (simp add: bleu_score_map chrf_score_map)
qed

section \<open>GEMBA-MQM\<close>

lemma add_penalties_nonneg: "0 \<le> acc \<Longrightarrow> 0 \<le> add_penalties sevs acc"
  by (induction sevs arbitrary: acc) (auto simp: SEVERITY_PENALTIES_def)

lemma parse_gemba_output_nonneg: "0 \<le> parse_gemba_output text"
  by (simp add: parse_gemba_output_def add_penalties_nonneg)

lemma penalties_loop_map:
  "penalties_loop pipe bs acc = acc @ map parse_gemba_output (concat (map pipe bs))"
  by (induction pipe bs acc rule: penalties_loop.induct) simp_all

lemma gemba_score_nonneg:
  assumes "gemba_score pipe srcs hyps refs lang model slang tlang bs = Inr raw"
  shows "\<forall>p \<in> set raw. 0 \<le> p"
  using assms
  by (auto simp: gemba_score_def Let_def penalties_loop_map parse_gemba_output_nonneg
      split: if_splits)

lemma gemba_quality_range: "0 \<le> p \<Longrightarrow> 0 < gemba_quality p \<and> gemba_quality p \<le> 1"
  by (simp add: gemba_quality_def)

lemma gemba_quality_one: "0 \<le> p \<Longrightarrow> gemba_quality p = 1 \<longleftrightarrow> p = 0"
  by (simp add: gemba_quality_def)

lemma gemba_quality_strict: "0 \<le> p \<Longrightarrow> p < p' \<Longrightarrow> gemba_quality p' < gemba_quality p"
  by (simp add: gemba_quality_def frac_less2)

text \<open>
  Claim C8.  The GEMBA wrapper returns penalties (0 is perfect, higher is worse), each of
  them non-negative; before the result is stored as the column \<open>gemba\<close> every penalty
  \<open>p\<close> is replaced by \<open>1 / (1 + p)\<close>, one value per segment.  For a non-negative
  penalty that value lies in \<open>(0, 1]\<close>, is 1 exactly when \<open>p = 0\<close>, and decreases
  strictly as \<open>p\<close> grows.
\<close>

theorem gemba_self_normalized:
  "(run_metrics_gemba pipe model sources hyps refs = Inr column \<longrightarrow>
      (\<exists>raw. gemba_score pipe sources hyps refs None model ''English'' ''the target language'' 4 = Inr raw
         \<and> (\<forall>p \<in> set raw. 0 \<le> p)
         \<and> column = map (\<lambda>p. 1 / (1 + p)) raw
         \<and> length column = length sources
         \<and> (\<forall>v \<in> set column. 0 < v \<and> v \<le> 1)))
   \<and> (\<forall>p \<ge> 0. gemba_quality p = 1 / (1 + p) \<and> 0 < gemba_quality p \<and> gemba_quality p \<le> 1
         \<and> (gemba_quality p = 1 \<longleftrightarrow> p = 0))
   \<and> (\<forall>p p'. 0 \<le> p \<and> p < p' \<longrightarrow> gemba_quality p' < gemba_quality p)"
proof -
  have a: "run_metrics_gemba pipe model sources hyps refs = Inr column \<longrightarrow>
      (\<exists>raw. gemba_score pipe sources hyps refs None model ''English'' ''the target language'' 4 = Inr raw
         \<and> (\<forall>p \<in> set raw. 0 \<le> p)
         \<and> column = map (\<lambda>p. 1 / (1 + p)) raw
         \<and> length column = length sources
         \<and> (\<forall>v \<in> set column. 0 < v \<and> v \<le> 1))"
  proof
    assume run: "run_metrics_gemba pipe model sources hyps refs = Inr column"
    then obtain raw where
      raw: "gemba_score pipe sources hyps refs None model ''English'' ''the target language'' 4 = Inr raw"
      by (auto simp: run_metrics_gemba_def split: sum.splits)
    from run raw have col: "column = map gemba_quality raw" and len: "length column = length sources"
      by (auto simp: run_metrics_gemba_def Let_def split: if_splits)
    have nn: "\<forall>p \<in> set raw. 0 \<le> p" using raw by (rule gemba_score_nonneg)
    have "\<forall>v \<in> set column. 0 < v \<and> v \<le> 1"
      using nn col gemba_quality_range by auto
    with raw nn col len show "\<exists>raw. gemba_score pipe sources hyps refs None model ''English'' ''the target language'' 4 = Inr raw
         \<and> (\<forall>p \<in> set raw. 0 \<le> p)
         \<and> column = map (\<lambda>p. 1 / (1 + p)) raw
         \<and> length column = length sources
         \<and> (\<forall>v \<in> set column. 0 < v \<and> v \<le> 1)"
      by (auto simp: gemba_quality_def)
  qed
  have b: "\<forall>p \<ge> 0. gemba_quality p = 1 / (1 + p) \<and> 0 < gemba_quality p \<and> gemba_quality p \<le> 1
         \<and> (gemba_quality p = 1 \<longleftrightarrow> p = 0)"
    using gemba_quality_range gemba_quality_one by (simp add: gemba_quality_def)
  have c: "\<forall>p p'. 0 \<le> p \<and> p < p' \<longrightarrow> gemba_quality p' < gemba_quality p"
    using gemba_quality_strict by blast
  from a b c show ?thesis by blast
qed

lemma demo_gemba_run:
  "run_metrics_gemba demo_pipe ''llm'' [''Hello world.'', ''Bye''] [''Hola mundo.'', ''Adios'']
       [''Hola mundo.'', ''Hasta luego''] = Inr [1, 1 / 6]"
  by code_simp

lemma demo_gemba_score:
  "gemba_score demo_pipe [''Hello world.'', ''Bye''] [''Hola mundo.'', ''Adios'']
       [''Hola mundo.'', ''Hasta luego''] None ''llm'' ''English'' ''the target language'' 4
     = Inr [0, 5]"
  by code_simp

theorem gemba_self_normalized_witness:
  "run_metrics_gemba demo_pipe ''llm'' [''Hello world.'', ''Bye''] [''Hola mundo.'', ''Adios'']
       [''Hola mundo.'', ''Hasta luego''] = Inr [1, 1 / 6]
   \<and> gemba_score demo_pipe [''Hello world.'', ''Bye''] [''Hola mundo.'', ''Adios'']
       [''Hola mundo.'', ''Hasta luego''] None ''llm'' ''English'' ''the target language'' 4
     = Inr [0, 5]
   \<and> [1, 1 / 6] = map (\<lambda>p. 1 / (1 + p)) [0, 5 :: real]
   \<and> (0 :: real) \<le> 5 \<and> gemba_quality 0 = 1 \<and> gemba_quality 5 = 1 / 6
   \<and> (0 :: real) < 5 \<and> gemba_quality 5 < gemba_quality 0"
  using gemba_self_normalized
    [of demo_pipe "''llm''" "[''Hello world.'', ''Bye'']" "[''Hola mundo.'', ''Adios'']"
        "[''Hola mundo.'', ''Hasta luego'']" "[1, 1 / 6]"]
    demo_gemba_run demo_gemba_score
  by (simp add: gemba_quality_def)

section \<open>The correlation engine\<close>

lemma correlate_small:
  "length hs < 3 \<Longrightarrow>
   correlate_metric_vs_human p s hs ms m l =
     Inr \<lparr>cr_lang = l, cr_metric = m, cr_n = length hs,
          pearson_r = None, pearson_p = None, spearman_r = None, spearman_p = None\<rparr>"
  by (simp add: correlate_metric_vs_human_def)

lemma correlate_fields:
  assumes "correlate_metric_vs_human p s hs ms m l = Inr c"
  shows "cr_lang c = l \<and> cr_metric c = m \<and> cr_n c = length hs
       \<and> (length hs < 3 \<longrightarrow> pearson_r c = None \<and> pearson_p c = None
                               \<and> spearman_r c = None \<and> spearman_p c = None)"
  using assms
  by (auto simp: correlate_metric_vs_human_def split: if_splits sum.splits prod.splits)

lemma emitted_fields:
  assumes "emitted p s l2t h l g m r"
  shows "cr_lang r = l" "cr_metric r = m" "cr_n r = length g" "resource_tier r = tier_of l2t l"
    "length g < 3 \<Longrightarrow> pearson_r r = None \<and> pearson_p r = None \<and> spearman_r r = None \<and> spearman_p r = None"
proof -
  from assms obtain c where
    c: "correlate_metric_vs_human p s (column_values h g) (column_values m g) m l = Inr c"
    and r: "r = correlation.extend c (correlation_row.fields (tier_of l2t l))"
    by (auto simp: emitted_def)
  have len: "length (column_values h g) = length g" by (simp add: column_values_def)
  from correlate_fields [OF c] r len
  show "cr_lang r = l" "cr_metric r = m" "cr_n r = length g" "resource_tier r = tier_of l2t l"
    "length g < 3 \<Longrightarrow> pearson_r r = None \<and> pearson_p r = None \<and> spearman_r r = None \<and> spearman_p r = None"
    by (simp_all add: correlation.extend_def correlation_row.fields_def)
qed

lemma emitted_unique: "emitted p s l2t h l g m r \<Longrightarrow> emitted p s l2t h l g m r' \<Longrightarrow> r = r'"
  by (auto simp: emitted_def)

lemma metrics_loop_Inr:
  "metrics_loop p s l2t cols l g (column_values h g) ms acc = Inr out \<longleftrightarrow>
     (\<exists>new. out = acc @ new
        \<and> list_all2 (emitted p s l2t h l g) (filter (\<lambda>m. m \<in> set cols) ms) new)"
proof (induction ms arbitrary: acc)
  case Nil
  show ?case by auto
next
  case (Cons m rest)
  show ?case
  proof (cases "m \<in> set cols")
    case False
    then show ?thesis using Cons.IH [of acc] by simp
  next
    case True
    show ?thesis
    proof (cases "correlate_metric_vs_human p s (column_values h g) (column_values m g) m l")
      case (Inl e)
      then have "\<not> emitted p s l2t h l g m r" for r by (simp add: emitted_def)
      with True Inl show ?thesis by (auto simp: list_all2_Cons1)
    next
      case (Inr c)
      define r0 where "r0 = correlation.extend c (correlation_row.fields (tier_of l2t l))"
      have e: "emitted p s l2t h l g m r \<longleftrightarrow> r = r0" for r
        using Inr by (auto simp: emitted_def r0_def)
      show ?thesis
        using True Inr Cons.IH [of "acc @ [r0]"]
        by (auto simp: list_all2_Cons1 e r0_def)
    qed
  qed
qed

lemma groups_loop_Inr:
  "groups_loop p s l2t cols h ms gs acc = Inr out \<longleftrightarrow>
     (gs = [] \<or> h \<in> set cols)
     \<and> (\<exists>news. out = acc @ concat news
          \<and> list_all2 (\<lambda>(l, g) new. list_all2 (emitted p s l2t h l g) (filter (\<lambda>m. m \<in> set cols) ms) new)
               gs news)"
proof (induction gs arbitrary: acc)
  case Nil
  show ?case by auto
next
  case (Cons lg rest)
  obtain l g where lg: "lg = (l, g)" by (cases lg)
  show ?case
  proof (cases "h \<in> set cols")
    case False
    then show ?thesis by (simp add: lg)
  next
    case True
    show ?thesis
    proof (cases "metrics_loop p s l2t cols l g (column_values h g) ms acc")
      case (Inl e)
      then have "\<not> list_all2 (emitted p s l2t h l g) (filter (\<lambda>m. m \<in> set cols) ms) new" for new
        using metrics_loop_Inr [of p s l2t cols l g h ms acc] by auto
      with True Inl show ?thesis by (auto simp: lg list_all2_Cons1)
    next
      case (Inr acc')
      then obtain new0 where acc': "acc' = acc @ new0"
        and new0: "list_all2 (emitted p s l2t h l g) (filter (\<lambda>m. m \<in> set cols) ms) new0"
        using metrics_loop_Inr [of p s l2t cols l g h ms acc acc'] by auto
      have uniq: "list_all2 (emitted p s l2t h l g) (filter (\<lambda>m. m \<in> set cols) ms) new \<longleftrightarrow> new = new0" for new
      proof
        assume a: "list_all2 (emitted p s l2t h l g) (filter (\<lambda>m. m \<in> set cols) ms) new"
        have "length new = length new0"
          using a new0 by (metis list_all2_lengthD)
        moreover have "new ! i = new0 ! i" if "i < length new" for i
          using a new0 that emitted_unique
          by (metis list_all2_conv_all_nth)
        ultimately show "new = new0" by (simp add: nth_equalityI)
      next
        assume "new = new0" with new0
        show "list_all2 (emitted p s l2t h l g) (filter (\<lambda>m. m \<in> set cols) ms) new" by simp
      qed
      let ?Q = "\<lambda>(l, g) new. list_all2 (emitted p s l2t h l g) (filter (\<lambda>m. m \<in> set cols) ms) new"
      have step: "groups_loop p s l2t cols h ms (lg # rest) acc = groups_loop p s l2t cols h ms rest acc'"
        using True Inr by (simp add: lg)
      have "(\<exists>news. out = acc @ concat news \<and> list_all2 ?Q (lg # rest) news)
            \<longleftrightarrow> (\<exists>news'. out = acc' @ concat news' \<and> list_all2 ?Q rest news')"
      proof
        assume "\<exists>news. out = acc @ concat news \<and> list_all2 ?Q (lg # rest) news"
        then obtain news where o: "out = acc @ concat news" and q: "list_all2 ?Q (lg # rest) news"
          by blast
        from q obtain new news' where n: "news = new # news'" and q1: "?Q lg new"
          and q2: "list_all2 ?Q rest news'"
          by (auto simp: list_all2_Cons1)
        from q1 have "new = new0" using uniq by (simp add: lg)
        with o n q2 show "\<exists>news'. out = acc' @ concat news' \<and> list_all2 ?Q rest news'"
          by (auto simp: acc')
      next
        assume "\<exists>news'. out = acc' @ concat news' \<and> list_all2 ?Q rest news'"
        then obtain news' where o: "out = acc' @ concat news'" and q2: "list_all2 ?Q rest news'"
          by blast
        have "out = acc @ concat (new0 # news')" using o by (simp add: acc')
        moreover have "list_all2 ?Q (lg # rest) (new0 # news')"
          using q2 new0 by (simp add: lg)
        ultimately show "\<exists>news. out = acc @ concat news \<and> list_all2 ?Q (lg # rest) news"
          by blast
      qed
      then show ?thesis
        using True step Cons.IH [of acc'] by simp
    qed
  qed
qed


lemma inner_keys:
  assumes "list_all2 (emitted p s l2t h l g) ms new"
  shows "map (\<lambda>r. (cr_lang r, cr_metric r)) new = map (Pair l) ms"
  using assms by (induction ms new rule: list_all2_induct) (simp_all add: emitted_fields)

lemma nested_keys:
  assumes "list_all2 (\<lambda>(l, g) new. list_all2 (emitted p s l2t h l g) ms new) gs news"
  shows "map (\<lambda>r. (cr_lang r, cr_metric r)) (concat news) = List.product (map fst gs) ms"
  using assms
  by (induction gs news rule: list_all2_induct) (auto simp: inner_keys)

lemma nested_mem:
  assumes "list_all2 (\<lambda>(l, g) new. list_all2 (emitted p s l2t h l g) ms new) gs news"
    and "r \<in> set (concat news)"
  shows "\<exists>(l, g) \<in> set gs. \<exists>m \<in> set ms. emitted p s l2t h l g m r"
  using assms
proof (induction gs news rule: list_all2_induct)
  case Nil
  then show ?case by simp
next
  case (Cons lg gs new news)
  show ?case
  proof (cases "r \<in> set new")
    case True
    obtain l g where lg: "lg = (l, g)" by (cases lg)
    from Cons.hyps(1) have "list_all2 (emitted p s l2t h l g) ms new" by (simp add: lg)
    with True obtain m where "m \<in> set ms" "emitted p s l2t h l g m r"
      by (metis in_set_conv_nth list_all2_conv_all_nth)
    then show ?thesis by (auto simp: lg)
  next
    case False
    with Cons.prems have "r \<in> set (concat news)" by simp
    with Cons.IH show ?thesis by auto
  qed
qed

lemma groupby_lang_keys: "map fst (groupby_lang rs) = sort (remdups (map row_lang rs))"
  by (simp add: groupby_lang_def comp_def)

lemma groupby_lang_mem:
  "(l, g) \<in> set (groupby_lang rs) \<Longrightarrow> g = filter (\<lambda>r. row_lang r = l) rs \<and> l \<in> row_lang ` set rs"
  by (auto simp: groupby_lang_def)

lemma correlation_rows_Inr:
  "correlation_rows p s df ms h tiers = Inr pre \<longleftrightarrow>
     ''lang'' \<in> set (columns df) \<and> (rows df = [] \<or> h \<in> set (columns df))
     \<and> (\<exists>news. pre = concat news
          \<and> list_all2 (\<lambda>(l, g) new. list_all2 (emitted p s (tiers_used tiers) h l g)
                          (filter (\<lambda>m. m \<in> set (columns df)) ms) new)
               (groupby_lang (rows df)) news)"
proof -
  have "groupby_lang (rows df) = [] \<longleftrightarrow> rows df = []"
    by (simp add: groupby_lang_def) (metis remdups_eq_nil_iff set_empty set_sort sort_key_simps(1) map_is_Nil_conv)
  then show ?thesis
    by (simp add: correlation_rows_def Let_def tiers_used_def groups_loop_Inr)
qed

lemma correlation_rows_keys:
  assumes "correlation_rows p s df ms h tiers = Inr pre"
  shows "map (\<lambda>r. (cr_lang r, cr_metric r)) pre
         = List.product (sort (remdups (map row_lang (rows df))))
             (filter (\<lambda>m. m \<in> set (columns df)) ms)"
  using assms nested_keys groupby_lang_keys
  by (fastforce simp: correlation_rows_Inr)

lemma correlation_rows_fields:
  assumes "correlation_rows p s df ms h tiers = Inr pre" and "r \<in> set pre"
  shows "cr_n r = length (filter (\<lambda>x. row_lang x = cr_lang r) (rows df))"
    and "resource_tier r = tier_of (tiers_used tiers) (cr_lang r)"
    and "cr_n r < 3 \<Longrightarrow> pearson_r r = None \<and> pearson_p r = None \<and> spearman_r r = None \<and> spearman_p r = None"
    and "cr_lang r \<in> row_lang ` set (rows df)"
    and "cr_metric r \<in> set ms \<inter> set (columns df)"
proof -
  from assms obtain news where pre: "pre = concat news"
    and la: "list_all2 (\<lambda>(l, g) new. list_all2 (emitted p s (tiers_used tiers) h l g)
                          (filter (\<lambda>m. m \<in> set (columns df)) ms) new)
               (groupby_lang (rows df)) news"
    by (auto simp: correlation_rows_Inr)
  from nested_mem [OF la] assms(2) pre
  obtain l g m where lg: "(l, g) \<in> set (groupby_lang (rows df))"
    and m: "m \<in> set (filter (\<lambda>m. m \<in> set (columns df)) ms)"
    and e: "emitted p s (tiers_used tiers) h l g m r"
    by blast
  note f = emitted_fields [OF e]
  from groupby_lang_mem [OF lg] have g: "g = filter (\<lambda>x. row_lang x = l) (rows df)"
    and l: "l \<in> row_lang ` set (rows df)" by simp_all
  show "cr_n r = length (filter (\<lambda>x. row_lang x = cr_lang r) (rows df))"
    using f g by simp
  show "resource_tier r = tier_of (tiers_used tiers) (cr_lang r)" using f by simp
  show "cr_n r < 3 \<Longrightarrow> pearson_r r = None \<and> pearson_p r = None \<and> spearman_r r = None \<and> spearman_p r = None"
    using f by simp
  show "cr_lang r \<in> row_lang ` set (rows df)" using f l by simp
  show "cr_metric r \<in> set ms \<inter> set (columns df)" using f m by simp
qed

lemma run_Inr:
  "run_correlation_analysis p s df ms h tiers = Inr out \<longleftrightarrow>
     (\<exists>pre. correlation_rows p s df ms h tiers = Inr pre \<and> out = sort_key sort_key3 pre)"
  by (auto simp: run_correlation_analysis_def split: sum.splits)


lemma emitted_small:
  "length g < 3 \<Longrightarrow> emitted p s l2t h l g m (small_row l2t l m (length g))"
  by (simp add: emitted_def correlate_small column_values_def small_row_def
      correlation.extend_def correlation_row.fields_def)

lemma correlation_rows_small_total:
  assumes lang: "''lang'' \<in> set (columns df)" and h: "h \<in> set (columns df)"
    and small: "\<forall>l. length (filter (\<lambda>x. row_lang x = l) (rows df)) < 3"
  shows "\<exists>pre. correlation_rows p s df ms h tiers = Inr pre"
proof -
  let ?present = "filter (\<lambda>m. m \<in> set (columns df)) ms"
  let ?gs = "groupby_lang (rows df)"
  let ?news = "map (\<lambda>(l, g). map (\<lambda>m. small_row (tiers_used tiers) l m (length g)) ?present) ?gs"
  have inner: "list_all2 (emitted p s (tiers_used tiers) h l g) ?present
                 (map (\<lambda>m. small_row (tiers_used tiers) l m (length g)) ?present)"
    if "(l, g) \<in> set ?gs" for l g
  proof -
    from that have "length g < 3" using small groupby_lang_mem by blast
    then show ?thesis by (simp add: list_all2_map2 list_all2_same emitted_small)
  qed
  have "list_all2 (\<lambda>(l, g) new. list_all2 (emitted p s (tiers_used tiers) h l g) ?present new) ?gs ?news"
    unfolding list_all2_map2 list_all2_same using inner by auto
  then have "correlation_rows p s df ms h tiers = Inr (concat ?news)"
    using lang h by (subst correlation_rows_Inr) blast
  then show ?thesis by blast
qed

lemma metrics_loop_filter:
  "metrics_loop p s l2t cols l g hs (filter (\<lambda>m. m \<in> set cols) ms) acc
     = metrics_loop p s l2t cols l g hs ms acc"
  by (induction ms arbitrary: acc) (simp_all split: sum.splits)

lemma groups_loop_filter:
  "groups_loop p s l2t cols h (filter (\<lambda>m. m \<in> set cols) ms) gs acc
     = groups_loop p s l2t cols h ms gs acc"
proof (induction gs arbitrary: acc)
  case Nil
  show ?case by simp
next
  case (Cons lg gs)
  obtain l g where "lg = (l, g)" by (cases lg)
  then show ?case by (simp add: metrics_loop_filter Cons.IH split: sum.splits)
qed

lemma run_filter:
  "run_correlation_analysis p s df (filter (\<lambda>m. m \<in> set (columns df)) ms) h tiers
     = run_correlation_analysis p s df ms h tiers"
  by (simp add: run_correlation_analysis_def correlation_rows_def groups_loop_filter)

lemma length_filter_key:
  "length (filter (\<lambda>r. f r = k) xs) = count (mset (map f xs)) k"
  by (induction xs) auto

lemma correlation_rows_tied_equal:
  assumes pre: "correlation_rows p s df ms h tiers = Inr pre"
    and r: "r \<in> set pre" and r': "r' \<in> set pre"
    and k: "cr_lang r = cr_lang r'" "cr_metric r = cr_metric r'"
  shows "r = r'"
proof -
  from pre obtain news where pn: "pre = concat news"
    and la: "list_all2 (\<lambda>(l, g) new. list_all2 (emitted p s (tiers_used tiers) h l g)
                          (filter (\<lambda>m. m \<in> set (columns df)) ms) new)
               (groupby_lang (rows df)) news"
    by (auto simp: correlation_rows_Inr)
  from nested_mem [OF la] r pn
  obtain l g m where lg: "(l, g) \<in> set (groupby_lang (rows df))"
    and e: "emitted p s (tiers_used tiers) h l g m r"
    by blast
  from nested_mem [OF la] r' pn
  obtain l' g' m' where lg': "(l', g') \<in> set (groupby_lang (rows df))"
    and e': "emitted p s (tiers_used tiers) h l' g' m' r'"
    by blast
  have "l = l'" "m = m'"
    using emitted_fields(1,2) [OF e] emitted_fields(1,2) [OF e'] k by simp_all
  moreover have "g = g'"
    using groupby_lang_mem [OF lg] groupby_lang_mem [OF lg'] \<open>l = l'\<close> by simp
  ultimately show ?thesis using e e' emitted_unique by blast
qed

lemma tiny_run:
  "run_correlation_analysis demo_stat demo_stat tiny_df [''chrf'', ''bleu''] ''quality_score'' None
     = Inr [small_row (lang_to_tier RESOURCE_TIERS) ''es'' ''bleu'' 2]"
  by code_simp

lemma tiny_run_dup:
  "run_correlation_analysis demo_stat demo_stat tiny_df [''bleu'', ''bleu''] ''quality_score'' None
     = Inr [small_row (lang_to_tier RESOURCE_TIERS) ''es'' ''bleu'' 2,
            small_row (lang_to_tier RESOURCE_TIERS) ''es'' ''bleu'' 2]"
  by code_simp

lemma demo_run:
  "run_correlation_analysis demo_stat demo_stat demo_df [''chrf'', ''bleu''] ''quality_score'' None
     = Inr [\<lparr>cr_lang = ''es'', cr_metric = ''bleu'', cr_n = 2, pearson_r = None,
         pearson_p = None, spearman_r = None, spearman_p = None,
         resource_tier = ''high''\<rparr>,
      \<lparr>cr_lang = ''pt'', cr_metric = ''bleu'', cr_n = 3,
         pearson_r = Some (1 / 2), pearson_p = Some (1 / 4),
         spearman_r = Some (1 / 2), spearman_p = Some (1 / 4),
         resource_tier = ''high''\<rparr>,
      \<lparr>cr_lang = ''xx'', cr_metric = ''bleu'', cr_n = 1, pearson_r = None,
         pearson_p = None, spearman_r = None, spearman_p = None,
         resource_tier = ''unknown''\<rparr>]"
  by code_simp


text \<open>
  Claim C1.  A language group with fewer than 3 observations gets, for every requested
  metric whose column is present, a record whose \<open>n\<close> is the number of rows of the group
  and whose four statistics are all unset; the statistics routines are not called for it.
  First \<open>correlate_metric_vs_human\<close> alone, then every record of the table
  \<open>run_correlation_analysis\<close> returns, then the existence of the record, and last that
  a table all of whose groups are that small is always analysed without failure.
\<close>

theorem small_group_statistics_unset:
  "(length human_scores < 3 \<longrightarrow>
      correlate_metric_vs_human p s human_scores metric_scores m l =
        Inr \<lparr>cr_lang = l, cr_metric = m, cr_n = length human_scores,
             pearson_r = None, pearson_p = None, spearman_r = None, spearman_p = None\<rparr>)
   \<and> (run_correlation_analysis p s df ms h tiers = Inr out \<longrightarrow>
        (\<forall>r \<in> set out.
            cr_n r = length (filter (\<lambda>x. row_lang x = cr_lang r) (rows df))
          \<and> (length (filter (\<lambda>x. row_lang x = cr_lang r) (rows df)) < 3 \<longrightarrow>
                pearson_r r = None \<and> pearson_p r = None \<and> spearman_r r = None \<and> spearman_p r = None))
      \<and> (\<forall>lang \<in> row_lang ` set (rows df). \<forall>metric \<in> set ms \<inter> set (columns df).
            length (filter (\<lambda>x. row_lang x = lang) (rows df)) < 3 \<longrightarrow>
              (\<exists>r \<in> set out. cr_lang r = lang \<and> cr_metric r = metric
                 \<and> cr_n r = length (filter (\<lambda>x. row_lang x = lang) (rows df))
                 \<and> pearson_r r = None \<and> pearson_p r = None
                 \<and> spearman_r r = None \<and> spearman_p r = None)))
   \<and> (''lang'' \<in> set (columns df) \<and> h \<in> set (columns df)
        \<and> (\<forall>lang. length (filter (\<lambda>x. row_lang x = lang) (rows df)) < 3) \<longrightarrow>
        (\<exists>out'. run_correlation_analysis p s df ms h tiers = Inr out'))"
proof (intro conjI impI)
  assume "length human_scores < 3"
  then show "correlate_metric_vs_human p s human_scores metric_scores m l =
        Inr \<lparr>cr_lang = l, cr_metric = m, cr_n = length human_scores,
             pearson_r = None, pearson_p = None, spearman_r = None, spearman_p = None\<rparr>"
    by (rule correlate_small)
next
  assume run: "run_correlation_analysis p s df ms h tiers = Inr out"
  then obtain pre where pre: "correlation_rows p s df ms h tiers = Inr pre"
    and out: "out = sort_key sort_key3 pre"
    by (auto simp: run_Inr)
  have mem: "set out = set pre" by (simp add: out)
  show "\<forall>r \<in> set out.
            cr_n r = length (filter (\<lambda>x. row_lang x = cr_lang r) (rows df))
          \<and> (length (filter (\<lambda>x. row_lang x = cr_lang r) (rows df)) < 3 \<longrightarrow>
                pearson_r r = None \<and> pearson_p r = None \<and> spearman_r r = None \<and> spearman_p r = None)"
    using correlation_rows_fields(1,3) [OF pre] mem by metis
next
  assume run: "run_correlation_analysis p s df ms h tiers = Inr out"
  then obtain pre where pre: "correlation_rows p s df ms h tiers = Inr pre"
    and out: "out = sort_key sort_key3 pre"
    by (auto simp: run_Inr)
  have mem: "set out = set pre" by (simp add: out)
  show "\<forall>lang \<in> row_lang ` set (rows df). \<forall>metric \<in> set ms \<inter> set (columns df).
            length (filter (\<lambda>x. row_lang x = lang) (rows df)) < 3 \<longrightarrow>
              (\<exists>r \<in> set out. cr_lang r = lang \<and> cr_metric r = metric
                 \<and> cr_n r = length (filter (\<lambda>x. row_lang x = lang) (rows df))
                 \<and> pearson_r r = None \<and> pearson_p r = None
                 \<and> spearman_r r = None \<and> spearman_p r = None)"
  proof (intro ballI impI)
    fix lang metric
    assume lang: "lang \<in> row_lang ` set (rows df)"
      and metric: "metric \<in> set ms \<inter> set (columns df)"
      and small: "length (filter (\<lambda>x. row_lang x = lang) (rows df)) < 3"
    have "(lang, metric) \<in> set (List.product (sort (remdups (map row_lang (rows df))))
             (filter (\<lambda>m. m \<in> set (columns df)) ms))"
      using lang metric by auto
    then have "(lang, metric) \<in> set (map (\<lambda>r. (cr_lang r, cr_metric r)) pre)"
      using correlation_rows_keys [OF pre] by simp
    then obtain r where r: "r \<in> set pre" "cr_lang r = lang" "cr_metric r = metric"
      by auto
    from correlation_rows_fields(1,3) [OF pre r(1)] small r
    have "cr_n r = length (filter (\<lambda>x. row_lang x = lang) (rows df))
          \<and> pearson_r r = None \<and> pearson_p r = None \<and> spearman_r r = None \<and> spearman_p r = None"
      by simp
    with r mem show "\<exists>r \<in> set out. cr_lang r = lang \<and> cr_metric r = metric
                 \<and> cr_n r = length (filter (\<lambda>x. row_lang x = lang) (rows df))
                 \<and> pearson_r r = None \<and> pearson_p r = None
                 \<and> spearman_r r = None \<and> spearman_p r = None"
      by blast
  qed
next
  assume "''lang'' \<in> set (columns df) \<and> h \<in> set (columns df)
        \<and> (\<forall>lang. length (filter (\<lambda>x. row_lang x = lang) (rows df)) < 3)"
  then obtain pre where "correlation_rows p s df ms h tiers = Inr pre"
    using correlation_rows_small_total by blast
  then show "\<exists>out'. run_correlation_analysis p s df ms h tiers = Inr out'"
    by (simp add: run_Inr)
qed


theorem small_group_statistics_unset_witness:
  "run_correlation_analysis demo_stat demo_stat tiny_df [''chrf'', ''bleu''] ''quality_score'' None
     = Inr [small_row (lang_to_tier RESOURCE_TIERS) ''es'' ''bleu'' 2]
   \<and> length (filter (\<lambda>x. row_lang x = ''es'') (rows tiny_df)) = 2
   \<and> cr_n (small_row (lang_to_tier RESOURCE_TIERS) ''es'' ''bleu'' 2) = 2
   \<and> pearson_r (small_row (lang_to_tier RESOURCE_TIERS) ''es'' ''bleu'' 2) = None
   \<and> spearman_p (small_row (lang_to_tier RESOURCE_TIERS) ''es'' ''bleu'' 2) = None"
  using small_group_statistics_unset
    [of "[Num 1, Num 0.2]" demo_stat demo_stat "[Num 0.9, Num 0.1]" "''bleu''" "''es''"
        tiny_df "[''chrf'', ''bleu'']" "''quality_score''" None
        "[small_row (lang_to_tier RESOURCE_TIERS) ''es'' ''bleu'' 2]"]
    tiny_run
  by (simp add: small_row_def tiny_df_def mk_row_def)

lemma sort_key3_le:
  "sort_key3 a \<le> sort_key3 b \<longleftrightarrow>
     cr_metric a < cr_metric b
     \<or> (cr_metric a = cr_metric b
         \<and> (resource_tier a < resource_tier b
             \<or> (resource_tier a = resource_tier b \<and> cr_lang a \<le> cr_lang b)))"
  by (auto simp: sort_key3_def less_eq_prod_def less_prod_def)

text \<open>
  The engine adds no dependence on the order of the table's rows: with statistics that
  depend only on the pairs of observations, a table with the same rows in another order
  gives the same result.  Whether \<open>scipy\<close>'s routines are such statistics in
  floating-point arithmetic is outside the model.
\<close>

lemma zip_column_values:
  "zip (column_values a g) (column_values b g)
     = map (\<lambda>r. (if a = ''lang'' then Str (row_lang r) else row_cell r a,
                  if b = ''lang'' then Str (row_lang r) else row_cell r b)) g"
  by (induction g) (simp_all add: column_values_def)

lemma stat_perm:
  assumes "order_insensitive st" and "mset g' = mset g"
  shows "st (column_values a g') (column_values b g') = st (column_values a g) (column_values b g)"
proof -
  have "mset (zip (column_values a g') (column_values b g'))
        = mset (zip (column_values a g) (column_values b g))"
    unfolding zip_column_values mset_map using assms(2) by simp
  moreover have "length (column_values a g') = length (column_values b g')"
    "length (column_values a g) = length (column_values b g)"
    by (simp_all add: column_values_def)
  ultimately show ?thesis using assms(1) unfolding order_insensitive_def by blast
qed

lemma correlate_perm:
  assumes "order_insensitive p" "order_insensitive s" and "mset g' = mset g"
  shows "correlate_metric_vs_human p s (column_values h g') (column_values m g') m l
       = correlate_metric_vs_human p s (column_values h g) (column_values m g) m l"
proof -
  have "length g' = length g" using assms(3) by (metis size_mset)
  then have "length (column_values h g') = length (column_values h g)"
    by (simp add: column_values_def)
  then show ?thesis
    unfolding correlate_metric_vs_human_def
    by (simp only: stat_perm [OF assms(1) assms(3)] stat_perm [OF assms(2) assms(3)])
qed

lemma metrics_loop_perm:
  assumes "order_insensitive p" "order_insensitive s" and "mset g' = mset g"
  shows "metrics_loop p s l2t cols l g' (column_values h g') ms acc
       = metrics_loop p s l2t cols l g (column_values h g) ms acc"
  by (induction ms arbitrary: acc) (simp_all add: correlate_perm [OF assms] split: sum.splits)

lemma groups_loop_perm:
  assumes "order_insensitive p" "order_insensitive s"
    and "list_all2 (\<lambda>x y. fst x = fst y \<and> mset (snd x) = mset (snd y)) gs' gs"
  shows "groups_loop p s l2t cols h ms gs' acc = groups_loop p s l2t cols h ms gs acc"
  using assms(3)
proof (induction gs' gs arbitrary: acc rule: list_all2_induct)
  case Nil
  show ?case by simp
next
  case (Cons x gs' y gs)
  obtain l g' where x: "x = (l, g')" by (cases x)
  obtain l2 g where y: "y = (l2, g)" by (cases y)
  from Cons.hyps(1) have l: "l2 = l" and g: "mset g' = mset g" by (simp_all add: x y)
  show ?case
    by (simp add: x y l metrics_loop_perm [OF assms(1,2) g] Cons.IH split: sum.splits)
qed

lemma groupby_lang_perm:
  assumes "mset rs' = mset rs"
  shows "list_all2 (\<lambda>x y. fst x = fst y \<and> mset (snd x) = mset (snd y)) (groupby_lang rs') (groupby_lang rs)"
proof -
  have "set rs' = set rs" using assms by (rule mset_eq_setD)
  then have "set (remdups (map row_lang rs')) = set (remdups (map row_lang rs))" by simp
  then have k: "sort (remdups (map row_lang rs')) = sort (remdups (map row_lang rs))"
    by (intro sorted_distinct_set_unique) simp_all
  have f: "mset (filter P rs') = mset (filter P rs)" for P
    using assms by (simp only: mset_filter)
  show ?thesis
    unfolding groupby_lang_def k
    by (simp add: list_all2_map1 list_all2_map2 list_all2_same assms)
qed

lemma run_correlation_analysis_row_order:
  assumes "order_insensitive p" "order_insensitive s"
    and "mset (rows df') = mset (rows df)" and "columns df' = columns df"
  shows "run_correlation_analysis p s df' ms h tiers = run_correlation_analysis p s df ms h tiers"
  unfolding run_correlation_analysis_def correlation_rows_def
  by (simp add: assms(4) groups_loop_perm [OF assms(1,2) groupby_lang_perm [OF assms(3)]])

text \<open>
  Claim C5.  The rows \<open>run_correlation_analysis\<close> returns are the rows its loops built,
  sorted by metric, then resource tier, then language; rows that agree on all three keys
  stand in the order in which the loops built them (and such rows are equal records).
\<close>

theorem output_sorted_by_metric_tier_lang:
  assumes "run_correlation_analysis p s df ms h tiers = Inr out"
  shows "(\<exists>pre. correlation_rows p s df ms h tiers = Inr pre
            \<and> mset out = mset pre
            \<and> (\<forall>k. filter (\<lambda>r. sort_key3 r = k) out = filter (\<lambda>r. sort_key3 r = k) pre))
       \<and> (\<forall>i j. i < length out \<and> j < length out \<and> sort_key3 (out ! i) = sort_key3 (out ! j)
             \<longrightarrow> out ! i = out ! j)
       \<and> sorted (map sort_key3 out)
       \<and> (\<forall>i j. i < j \<and> j < length out \<longrightarrow>
             cr_metric (out ! i) < cr_metric (out ! j)
             \<or> (cr_metric (out ! i) = cr_metric (out ! j)
                 \<and> (resource_tier (out ! i) < resource_tier (out ! j)
                     \<or> (resource_tier (out ! i) = resource_tier (out ! j)
                         \<and> cr_lang (out ! i) \<le> cr_lang (out ! j)))))"
proof -
  from assms obtain pre where pre: "correlation_rows p s df ms h tiers = Inr pre"
    and out: "out = sort_key sort_key3 pre"
    by (auto simp: run_Inr)
  have stable: "\<forall>k. filter (\<lambda>r. sort_key3 r = k) out = filter (\<lambda>r. sort_key3 r = k) pre"
    by (simp add: out sort_key_stable)
  have srt: "sorted (map sort_key3 out)" by (simp add: out)
  have expl: "\<forall>i j. i < j \<and> j < length out \<longrightarrow>
             cr_metric (out ! i) < cr_metric (out ! j)
             \<or> (cr_metric (out ! i) = cr_metric (out ! j)
                 \<and> (resource_tier (out ! i) < resource_tier (out ! j)
                     \<or> (resource_tier (out ! i) = resource_tier (out ! j)
                         \<and> cr_lang (out ! i) \<le> cr_lang (out ! j))))"
  proof (intro allI impI)
    fix i j
    assume ij: "i < j \<and> j < length out"
    then have "map sort_key3 out ! i \<le> map sort_key3 out ! j"
      using srt by (simp add: sorted_iff_nth_mono del: nth_map)
    then have "sort_key3 (out ! i) \<le> sort_key3 (out ! j)" using ij by simp
    then show "cr_metric (out ! i) < cr_metric (out ! j)
             \<or> (cr_metric (out ! i) = cr_metric (out ! j)
                 \<and> (resource_tier (out ! i) < resource_tier (out ! j)
                     \<or> (resource_tier (out ! i) = resource_tier (out ! j)
                         \<and> cr_lang (out ! i) \<le> cr_lang (out ! j))))"
      by (simp only: sort_key3_le)
  qed
  have tied: "\<forall>i j. i < length out \<and> j < length out \<and> sort_key3 (out ! i) = sort_key3 (out ! j)
             \<longrightarrow> out ! i = out ! j"
  proof (intro allI impI)
    fix i j
    assume a: "i < length out \<and> j < length out \<and> sort_key3 (out ! i) = sort_key3 (out ! j)"
    from a have i: "i < length out" and j: "j < length out"
      and k: "sort_key3 (out ! i) = sort_key3 (out ! j)"
      by (rule conjunct1, rule conjunct2 [THEN conjunct1], rule conjunct2 [THEN conjunct2])
    have so: "set out = set pre" by (simp add: out)
    have mi: "out ! i \<in> set pre" using nth_mem [OF i] by (simp only: so)
    have mj: "out ! j \<in> set pre" using nth_mem [OF j] by (simp only: so)
    from k have "cr_lang (out ! i) = cr_lang (out ! j)" "cr_metric (out ! i) = cr_metric (out ! j)"
      by (simp_all add: sort_key3_def)
    with mi mj show "out ! i = out ! j" by (rule correlation_rows_tied_equal [OF pre])
  qed
  have "mset out = mset pre" by (simp add: out)
  with pre stable have ex: "\<exists>pre. correlation_rows p s df ms h tiers = Inr pre
            \<and> mset out = mset pre
            \<and> (\<forall>k. filter (\<lambda>r. sort_key3 r = k) out = filter (\<lambda>r. sort_key3 r = k) pre)"
    by blast
  show ?thesis
    by (rule conjI [OF ex conjI [OF tied conjI [OF srt expl]]])
qed

theorem output_sorted_by_metric_tier_lang_witness:
  "run_correlation_analysis demo_stat demo_stat demo_df [''chrf'', ''bleu''] ''quality_score'' None
     = Inr [small_row (lang_to_tier RESOURCE_TIERS) ''es'' ''bleu'' 2,
            \<lparr>cr_lang = ''pt'', cr_metric = ''bleu'', cr_n = 3,
              pearson_r = Some (1 / 2), pearson_p = Some (1 / 4),
              spearman_r = Some (1 / 2), spearman_p = Some (1 / 4), resource_tier = ''high''\<rparr>,
            small_row (lang_to_tier RESOURCE_TIERS) ''xx'' ''bleu'' 1]
   \<and> sorted (map sort_key3
          [small_row (lang_to_tier RESOURCE_TIERS) ''es'' ''bleu'' 2,
            \<lparr>cr_lang = ''pt'', cr_metric = ''bleu'', cr_n = 3,
              pearson_r = Some (1 / 2), pearson_p = Some (1 / 4),
              spearman_r = Some (1 / 2), spearman_p = Some (1 / 4), resource_tier = ''high''\<rparr>,
            small_row (lang_to_tier RESOURCE_TIERS) ''xx'' ''bleu'' 1])"
proof -
  have run: "run_correlation_analysis demo_stat demo_stat demo_df [''chrf'', ''bleu''] ''quality_score'' None
     = Inr [small_row (lang_to_tier RESOURCE_TIERS) ''es'' ''bleu'' 2,
            \<lparr>cr_lang = ''pt'', cr_metric = ''bleu'', cr_n = 3,
              pearson_r = Some (1 / 2), pearson_p = Some (1 / 4),
              spearman_r = Some (1 / 2), spearman_p = Some (1 / 4), resource_tier = ''high''\<rparr>,
            small_row (lang_to_tier RESOURCE_TIERS) ''xx'' ''bleu'' 1]"
    unfolding demo_run by (simp add: small_row_def tier_of_def lang_to_tier_def RESOURCE_TIERS_def)
  from output_sorted_by_metric_tier_lang [OF run] run show ?thesis by (intro conjI) (elim conjE, assumption)+
qed

text \<open>
  Claim C6, as amended.  A requested metric that is not a column of the table is skipped:
  the result, error or table, is the one the call without that metric gives, and no record
  carries it.  The returned table has one record for every language of the table and
  every entry of the requested list whose column is present, so exactly one per pair when
  the requested names are pairwise distinct.
\<close>

theorem absent_metric_columns_skipped:
  "run_correlation_analysis p s df ms h tiers
     = run_correlation_analysis p s df (filter (\<lambda>m. m \<in> set (columns df)) ms) h tiers
   \<and> (run_correlation_analysis p s df ms h tiers = Inr out \<longrightarrow>
        mset (map (\<lambda>r. (cr_lang r, cr_metric r)) out)
          = mset (List.product (sort (remdups (map row_lang (rows df))))
                    (filter (\<lambda>m. m \<in> set (columns df)) ms))
      \<and> (\<forall>r \<in> set out. cr_metric r \<in> set (columns df))
      \<and> (distinct ms \<longrightarrow>
            (\<forall>lang \<in> row_lang ` set (rows df). \<forall>metric \<in> set ms \<inter> set (columns df).
               length (filter (\<lambda>r. (cr_lang r, cr_metric r) = (lang, metric)) out) = 1)))"
proof (intro conjI impI)
  show "run_correlation_analysis p s df ms h tiers
     = run_correlation_analysis p s df (filter (\<lambda>m. m \<in> set (columns df)) ms) h tiers"
    by (simp add: run_filter)
next
  assume run: "run_correlation_analysis p s df ms h tiers = Inr out"
  then obtain pre where pre: "correlation_rows p s df ms h tiers = Inr pre"
    and out: "out = sort_key sort_key3 pre"
    by (auto simp: run_Inr)
  have "mset (map (\<lambda>r. (cr_lang r, cr_metric r)) out) = mset (map (\<lambda>r. (cr_lang r, cr_metric r)) pre)"
    by (simp add: out)
  then show "mset (map (\<lambda>r. (cr_lang r, cr_metric r)) out)
          = mset (List.product (sort (remdups (map row_lang (rows df))))
                    (filter (\<lambda>m. m \<in> set (columns df)) ms))"
    by (simp add: correlation_rows_keys [OF pre])
next
  assume run: "run_correlation_analysis p s df ms h tiers = Inr out"
  then obtain pre where pre: "correlation_rows p s df ms h tiers = Inr pre"
    and out: "out = sort_key sort_key3 pre"
    by (auto simp: run_Inr)
  show "\<forall>r \<in> set out. cr_metric r \<in> set (columns df)"
    using correlation_rows_fields(5) [OF pre] by (simp add: out)
next
  assume run: "run_correlation_analysis p s df ms h tiers = Inr out" and d: "distinct ms"
  then obtain pre where pre: "correlation_rows p s df ms h tiers = Inr pre"
    and out: "out = sort_key sort_key3 pre"
    by (auto simp: run_Inr)
  let ?keys = "List.product (sort (remdups (map row_lang (rows df))))
                    (filter (\<lambda>m. m \<in> set (columns df)) ms)"
  have "mset (map (\<lambda>r. (cr_lang r, cr_metric r)) out) = mset (map (\<lambda>r. (cr_lang r, cr_metric r)) pre)"
    by (simp add: out)
  then have ms: "mset (map (\<lambda>r. (cr_lang r, cr_metric r)) out) = mset ?keys"
    by (simp add: correlation_rows_keys [OF pre])
  have dk: "distinct ?keys" using d by (simp add: distinct_product)
  show "\<forall>lang \<in> row_lang ` set (rows df). \<forall>metric \<in> set ms \<inter> set (columns df).
               length (filter (\<lambda>r. (cr_lang r, cr_metric r) = (lang, metric)) out) = 1"
  proof (intro ballI)
    fix lang metric
    assume "lang \<in> row_lang ` set (rows df)" "metric \<in> set ms \<inter> set (columns df)"
    then have "(lang, metric) \<in> set ?keys" by auto
    then have "count (mset ?keys) (lang, metric) = 1"
      using dk by (simp add: distinct_count_atmost_1)
    then show "length (filter (\<lambda>r. (cr_lang r, cr_metric r) = (lang, metric)) out) = 1"
      using length_filter_key [of "\<lambda>r. (cr_lang r, cr_metric r)" "(lang, metric)" out] ms
      by simp
  qed
qed

theorem absent_metric_columns_skipped_witness:
  "run_correlation_analysis demo_stat demo_stat tiny_df [''chrf'', ''bleu''] ''quality_score'' None
     = Inr [small_row (lang_to_tier RESOURCE_TIERS) ''es'' ''bleu'' 2]
   \<and> distinct [''chrf'', ''bleu'']
   \<and> ''chrf'' \<notin> set (columns tiny_df)
   \<and> run_correlation_analysis demo_stat demo_stat tiny_df [''bleu''] ''quality_score'' None
     = Inr [small_row (lang_to_tier RESOURCE_TIERS) ''es'' ''bleu'' 2]
   \<and> length (filter (\<lambda>r. (cr_lang r, cr_metric r) = (''es'', ''bleu''))
        [small_row (lang_to_tier RESOURCE_TIERS) ''es'' ''bleu'' 2]) = 1"
  using absent_metric_columns_skipped
    [of demo_stat demo_stat tiny_df "[''chrf'', ''bleu'']" "''quality_score''" None
        "[small_row (lang_to_tier RESOURCE_TIERS) ''es'' ''bleu'' 2]"]
    tiny_run
  by (simp add: small_row_def tiny_df_def mk_row_def)

text \<open>
  The claim as stated fails where a name is requested twice: the language \<open>es\<close> and the
  present column \<open>bleu\<close> then have two records.
\<close>

theorem one_record_per_pair_counterexample:
  "run_correlation_analysis demo_stat demo_stat tiny_df [''bleu'', ''bleu'']
            ''quality_score'' None
     = Inr [small_row (lang_to_tier RESOURCE_TIERS) ''es'' ''bleu'' 2,
            small_row (lang_to_tier RESOURCE_TIERS) ''es'' ''bleu'' 2]
   \<and> ''es'' \<in> row_lang ` set (rows tiny_df)
   \<and> ''bleu'' \<in> set [''bleu'', ''bleu''] \<inter> set (columns tiny_df)
   \<and> length (filter (\<lambda>r. (cr_lang r, cr_metric r) = (''es'', ''bleu''))
        [small_row (lang_to_tier RESOURCE_TIERS) ''es'' ''bleu'' 2,
         small_row (lang_to_tier RESOURCE_TIERS) ''es'' ''bleu'' 2]) = 2"
proof (intro conjI)
  show "run_correlation_analysis demo_stat demo_stat tiny_df [''bleu'', ''bleu'']
            ''quality_score'' None
        = Inr [small_row (lang_to_tier RESOURCE_TIERS) ''es'' ''bleu'' 2,
               small_row (lang_to_tier RESOURCE_TIERS) ''es'' ''bleu'' 2]"
    by (rule tiny_run_dup)
qed (simp_all add: small_row_def tiny_df_def mk_row_def)

section \<open>The tier summarizer\<close>

lemma nanmean_loop_spec:
  "nanmean_loop vs acc_sum acc_n =
     (if acc_n + length (defined_values vs) = 0 then None
      else Some ((acc_sum + sum_list (defined_values vs)) / real (acc_n + length (defined_values vs))))"
proof (induction vs acc_sum acc_n rule: nanmean_loop.induct)
  case (1 acc_sum acc_n)
  show ?case by (simp add: defined_values_def)
next
  case (2 vs acc_sum acc_n)
  then show ?case by (simp add: defined_values_def)
next
  case (3 v vs acc_sum acc_n)
  then show ?case by (simp add: defined_values_def add.assoc)
qed

lemma mean_skipna_spec: "mean_skipna vs = arithmetic_mean (defined_values vs)"
  by (simp add: mean_skipna_def nanmean_loop_spec arithmetic_mean_def)

lemma sorted_already: "sorted (map f xs) \<Longrightarrow> sort_key f xs = xs"
  by (induction xs) (auto simp: insort_is_Cons)

lemma summary_keys_pre:
  "map (\<lambda>t. (ts_metric t, ts_resource_tier t)) (map group_means (groupby_metric_tier rs))
     = sort (remdups (map tier_key rs))"
  by (simp add: groupby_metric_tier_def group_means_def comp_def)

lemma summarize_unfold:
  "summarize_by_tier rs = map group_means (groupby_metric_tier rs)"
proof -
  have "sorted (map (\<lambda>t. (ts_metric t, ts_resource_tier t)) (map group_means (groupby_metric_tier rs)))"
    by (simp only: summary_keys_pre) simp
  then show ?thesis unfolding summarize_by_tier_def by (rule sorted_already)
qed

text \<open>
  Claim C4.  \<open>summarize_by_tier\<close> returns exactly one row for every (metric, resource
  tier) pair that occurs in its input, sorted by metric and then tier; the \<open>pearson_r\<close>
  and \<open>spearman_r\<close> of a row are the sum of the values that are set among the input rows
  of that pair, divided by the number of those values, so an unset value counts neither
  in the sum nor in the divisor.  A pair none of whose rows has a value gets a missing
  value.
\<close>

theorem tier_summary_is_mean_of_defined:
  "map (\<lambda>t. (ts_metric t, ts_resource_tier t)) (summarize_by_tier rs) = sort (remdups (map tier_key rs))
   \<and> distinct (map (\<lambda>t. (ts_metric t, ts_resource_tier t)) (summarize_by_tier rs))
   \<and> sorted (map (\<lambda>t. (ts_metric t, ts_resource_tier t)) (summarize_by_tier rs))
   \<and> set (map (\<lambda>t. (ts_metric t, ts_resource_tier t)) (summarize_by_tier rs)) = tier_key ` set rs
   \<and> (\<forall>t \<in> set (summarize_by_tier rs).
        ts_pearson_r t = arithmetic_mean (defined_values (map pearson_r
            (filter (\<lambda>r. tier_key r = (ts_metric t, ts_resource_tier t)) rs)))
      \<and> ts_spearman_r t = arithmetic_mean (defined_values (map spearman_r
            (filter (\<lambda>r. tier_key r = (ts_metric t, ts_resource_tier t)) rs))))"
proof -
  have k: "map (\<lambda>t. (ts_metric t, ts_resource_tier t)) (summarize_by_tier rs) = sort (remdups (map tier_key rs))"
    by (simp only: summarize_unfold summary_keys_pre)
  have m: "\<forall>t \<in> set (summarize_by_tier rs).
        ts_pearson_r t = arithmetic_mean (defined_values (map pearson_r
            (filter (\<lambda>r. tier_key r = (ts_metric t, ts_resource_tier t)) rs)))
      \<and> ts_spearman_r t = arithmetic_mean (defined_values (map spearman_r
            (filter (\<lambda>r. tier_key r = (ts_metric t, ts_resource_tier t)) rs)))"
    by (auto simp: summarize_unfold groupby_metric_tier_def group_means_def mean_skipna_spec)
  show ?thesis
    using m by (simp add: k)
qed

lemma demo_summary:
  "summarize_by_tier demo_corr =
     [\<lparr>ts_metric = ''bleu'', ts_resource_tier = ''high'', ts_pearson_r = Some (4 / 5), ts_spearman_r = Some (3 / 5)\<rparr>,
      \<lparr>ts_metric = ''bleu'', ts_resource_tier = ''unknown'', ts_pearson_r = None, ts_spearman_r = None\<rparr>]"
  by code_simp

theorem tier_summary_is_mean_of_defined_witness:
  "summarize_by_tier demo_corr =
     [\<lparr>ts_metric = ''bleu'', ts_resource_tier = ''high'', ts_pearson_r = Some (4 / 5), ts_spearman_r = Some (3 / 5)\<rparr>,
      \<lparr>ts_metric = ''bleu'', ts_resource_tier = ''unknown'', ts_pearson_r = None, ts_spearman_r = None\<rparr>]
   \<and> arithmetic_mean (defined_values [Some (4 / 5), None]) = Some (4 / 5)
   \<and> arithmetic_mean (defined_values [None]) = None"
  using tier_summary_is_mean_of_defined [of demo_corr] demo_summary
  by (simp add: arithmetic_mean_def defined_values_def)

section \<open>The converter\<close>














end
